theory Spec2Isabelle
  imports Main "HOL-Library.AList"
begin

section \<open>Python values\<close>

text \<open>
  The library is dynamically typed: arguments, the request parameters and the decoded
  JSON body are all ordinary Python objects. They are modelled by one datatype holding
  the objects that \<open>json\<close> decoding yields: \<open>None\<close>, booleans, integers (unbounded),
  strings, lists, and dictionaries with string keys in insertion order. Floats are left
  out. A string is a list of characters, each standing for a code point below 256.
\<close>

datatype pyval =
    PNone
  | PBool bool
  | PInt int
  | PStr string
  | PList "pyval list"
  | PDict "(string \<times> pyval) list"

text \<open>
  \<open>ApiException\<close> of \<open>exceptions.py\<close>: the constructor stores \<open>code\<close> and
  \<open>message\<close> as given, whatever their type.
\<close>

record ApiException =
  self_code :: pyval
  self_message :: pyval

text \<open>
  Exceptions that can leave a function of the library. \<open>ApiError\<close> is a raised
  \<open>ApiException\<close>; the others are the built-in exceptions of the interpreter that
  subscripting, iteration, comparison, formatting and an unbound local raise, and the
  decoding error of \<open>response.json()\<close>.
\<close>

datatype exc =
    TypeError
  | KeyError
  | IndexError
  | UnboundLocalError
  | JSONDecodeError
  | ApiError ApiException

subsection \<open>Decimal and hexadecimal digits\<close>

definition digit_char :: "nat \<Rightarrow> char" where
  "digit_char d = ''0123456789abcdef'' ! (d mod 16)"

fun digits :: "nat \<Rightarrow> string" where
  "digits n = (if n < 10 then [digit_char n] else digits (n div 10) @ [digit_char (n mod 10)])"

declare digits.simps [simp del]

definition int_str :: "int \<Rightarrow> string" where
  "int_str i = (if i < 0 then CHR ''-'' # digits (nat (- i)) else digits (nat i))"

subsection \<open>\<open>repr\<close> and \<open>str\<close>\<close>

text \<open>
  \<open>repr\<close> of a string: single quotes unless the string has a single quote and no
  double quote; the quote in use and the backslash are escaped, tab, newline and
  carriage return are written \<open>\\t\<close>, \<open>\\n\<close>, \<open>\\r\<close>, and every other
  non-printable code point below 256 as \<open>\\xhh\<close>.
\<close>

definition printable :: "char \<Rightarrow> bool" where
  "printable c = (let n = (of_char c :: nat) in
     (32 \<le> n \<and> n < 127) \<or> (160 < n \<and> n < 173) \<or> 173 < n)"

definition repr_char :: "char \<Rightarrow> char \<Rightarrow> string" where
  "repr_char quote c =
     (if c = quote \<or> c = CHR 0x5C then [CHR 0x5C, c]
      else if c = CHR 0x09 then [CHR 0x5C, CHR ''t'']
      else if c = CHR 0x0A then [CHR 0x5C, CHR ''n'']
      else if c = CHR 0x0D then [CHR 0x5C, CHR ''r'']
      else if printable c then [c]
      else [CHR 0x5C, CHR ''x'', digit_char (of_char c div 16), digit_char (of_char c mod 16)])"

definition str_repr :: "string \<Rightarrow> string" where
  "str_repr s =
     (let quote = (if CHR 0x27 \<in> set s \<and> CHR 0x22 \<notin> set s then CHR 0x22 else CHR 0x27)
      in quote # concat (map (repr_char quote) s) @ [quote])"

fun join :: "string \<Rightarrow> string list \<Rightarrow> string" where
  "join sep [] = []"
| "join sep [x] = x"
| "join sep (x # y # ys) = x @ sep @ join sep (y # ys)"

fun py_repr :: "pyval \<Rightarrow> string" where
  "py_repr PNone = ''None''"
| "py_repr (PBool b) = (if b then ''True'' else ''False'')"
| "py_repr (PInt i) = int_str i"
| "py_repr (PStr s) = str_repr s"
| "py_repr (PList xs) = ''['' @ join '', '' (map py_repr xs) @ '']''"
| "py_repr (PDict kvs) =
     ''{'' @ join '', '' (map (\<lambda>kv. str_repr (fst kv) @ '': '' @ py_repr (snd kv)) kvs) @ ''}''"

text \<open>\<open>str(x)\<close>, which is also what an f-string field \<open>{x}\<close> inserts for these types.\<close>

definition py_str :: "pyval \<Rightarrow> string" where
  "py_str v = (case v of PStr s \<Rightarrow> s | _ \<Rightarrow> py_repr v)"

subsection \<open>Subscripting, comparison, hashing\<close>

text \<open>Indexing a sequence: a negative index counts from the end, out of range raises.\<close>

definition index :: "'a list \<Rightarrow> int \<Rightarrow> exc + 'a" where
  "index xs i =
     (let n = int (length xs); j = (if i < 0 then i + n else i)
      in if 0 \<le> j \<and> j < n then Inr (xs ! nat j) else Inl IndexError)"

definition hashable :: "pyval \<Rightarrow> bool" where
  "hashable v = (case v of PList _ \<Rightarrow> False | PDict _ \<Rightarrow> False | _ \<Rightarrow> True)"

text \<open>
  \<open>x[key]\<close>. A dictionary raises \<open>KeyError\<close> for a missing key (its keys are strings,
  so every other hashable key is missing) and \<open>TypeError\<close> for an unhashable one; a
  list or string takes an integer (a boolean is one); anything else is not
  subscriptable.
\<close>

fun getitem :: "pyval \<Rightarrow> pyval \<Rightarrow> exc + pyval" where
  "getitem (PDict kvs) (PStr k) = (case map_of kvs k of Some v \<Rightarrow> Inr v | None \<Rightarrow> Inl KeyError)"
| "getitem (PDict kvs) key = (if hashable key then Inl KeyError else Inl TypeError)"
| "getitem (PList xs) (PInt i) = index xs i"
| "getitem (PList xs) (PBool b) = index xs (if b then 1 else 0)"
| "getitem (PList xs) key = Inl TypeError"
| "getitem (PStr s) (PInt i) = map_sum id (\<lambda>c. PStr [c]) (index s i)"
| "getitem (PStr s) (PBool b) = map_sum id (\<lambda>c. PStr [c]) (index s (if b then 1 else 0))"
| "getitem (PStr s) key = Inl TypeError"
| "getitem x key = Inl TypeError"

text \<open>\<open>x[key] = v\<close> for a string key; the dictionary keeps the key's position.\<close>

fun setitem :: "pyval \<Rightarrow> string \<Rightarrow> pyval \<Rightarrow> exc + pyval" where
  "setitem (PDict kvs) k v = Inr (PDict (AList.update k v kvs))"
| "setitem x k v = Inl TypeError"

text \<open>The integer a value compares as: integers, and booleans as 0 and 1.\<close>

definition as_int :: "pyval \<Rightarrow> int option" where
  "as_int v = (case v of PInt i \<Rightarrow> Some i | PBool b \<Rightarrow> Some (if b then 1 else 0) | _ \<Rightarrow> None)"

text \<open>\<open>v == n\<close> for an integer literal \<open>n\<close>: never raises, false across types.\<close>

definition eq_int :: "pyval \<Rightarrow> int \<Rightarrow> bool" where
  "eq_int v n = (as_int v = Some n)"

section \<open>\<open>exceptions.py\<close>\<close>

text \<open>\<open>__init__\<close> stores both arguments as they are.\<close>

definition ApiException_init :: "pyval \<Rightarrow> pyval \<Rightarrow> ApiException" where
  "ApiException_init code message = \<lparr>self_code = code, self_message = message\<rparr>"

text \<open>
  \<open>__str__\<close>: the chained comparison \<open>400 <= self.code < 500\<close> raises \<open>TypeError\<close>
  when \<open>code\<close> is not a number; inside the range the method returns the formatted
  string, outside it falls off the end and returns \<open>None\<close>.
\<close>

definition ApiException_str :: "ApiException \<Rightarrow> exc + pyval" where
  "ApiException_str self =
     (case as_int (self_code self) of
        None \<Rightarrow> Inl TypeError
      | Some c \<Rightarrow>
          if 400 \<le> c \<and> c < 500
          then Inr (PStr (py_str (self_code self) @ '' Client Error: '' @ py_str (self_message self)))
          else Inr PNone)"

text \<open>
  \<open>str(e)\<close> and the f-string field \<open>{e}\<close> call \<open>__str__\<close> and raise \<open>TypeError\<close>
  when it returns anything but a string.
\<close>

definition format_exception :: "ApiException \<Rightarrow> exc + string" where
  "format_exception e =
     (case ApiException_str e of
        Inl err \<Rightarrow> Inl err
      | Inr (PStr s) \<Rightarrow> Inr s
      | Inr _ \<Rightarrow> Inl TypeError)"

section \<open>\<open>status.py\<close>\<close>

definition Statuses :: "(int \<times> string) list" where
  "Statuses =
     [(0, ''Not received to the server''),
      (1, ''Received to the phone''),
      (2, ''Not received to the phone''),
      (3, ''Received to the contact''),
      (4, ''Not received to the contact''),
      (5, ''Receptor is in Blacklist''),
      (6, ''Given Id is wrong'')]"

text \<open>
  \<open>Statuses.get(key)\<close>: \<open>None\<close> for a key that is not in the table, \<open>TypeError\<close> for
  an unhashable key. A boolean hashes and compares as 0 or 1.
\<close>

definition Statuses_get :: "pyval \<Rightarrow> exc + pyval" where
  "Statuses_get key =
     (if \<not> hashable key then Inl TypeError
      else case as_int key of
             None \<Rightarrow> Inr PNone
           | Some i \<Rightarrow> (case map_of Statuses i of Some s \<Rightarrow> Inr (PStr s) | None \<Rightarrow> Inr PNone))"

section \<open>The HTTP transport\<close>

text \<open>
  \<open>requests.request\<close> is the one collaborator outside the repository; it is a
  parameter of every operation. It is given the request and either raises an exception
  of the \<open>requests\<close> hierarchy (each carrying its text) or returns a response.
  \<open>json_body\<close> is what \<open>response.json()\<close> returns, \<open>None\<close> when the body is not
  JSON and the call raises.
\<close>

record request =
  req_method :: string
  req_url :: string
  req_data :: pyval
  req_headers :: "(string \<times> string) list"

record response =
  status_code :: int
  reason :: string
  resp_url :: string
  json_body :: "pyval option"

datatype request_error =
    ConnectionError string
  | HTTPError string
  | RequestException string

datatype transport_result = Raises request_error | Returns response

type_synonym transport = "request \<Rightarrow> transport_result"

text \<open>
  \<open>response.raise_for_status()\<close>: raises \<open>HTTPError\<close> for a status from 400 to 599;
  \<open>Some\<close> is the text of the raised error.
\<close>

definition raise_for_status :: "response \<Rightarrow> string option" where
  "raise_for_status r =
     (if 400 \<le> status_code r \<and> status_code r < 500
      then Some (int_str (status_code r) @ '' Client Error: '' @ reason r @ '' for url: '' @ resp_url r)
      else if 500 \<le> status_code r \<and> status_code r < 600
      then Some (int_str (status_code r) @ '' Server Error: '' @ reason r @ '' for url: '' @ resp_url r)
      else None)"

section \<open>\<open>ghasedak.py\<close>\<close>

datatype MessageType = TEXT | VOICE

fun MessageType_value :: "MessageType \<Rightarrow> int" where
  "MessageType_value TEXT = 1"
| "MessageType_value VOICE = 2"

datatype MessageIDType = MESSAGE_ID | CHECK_ID

fun MessageIDType_value :: "MessageIDType \<Rightarrow> int" where
  "MessageIDType_value MESSAGE_ID = 1"
| "MessageIDType_value CHECK_ID = 2"

record Ghasedak =
  apikey :: string
  url :: string

definition Ghasedak_init :: "string \<Rightarrow> Ghasedak" where
  "Ghasedak_init key = \<lparr>apikey = key, url = ''https://api.ghasedak.io/v2''\<rparr>"

text \<open>
  A call returns the lines it printed and either the value it returned or the exception
  it raised.
\<close>

type_synonym outcome = "string list \<times> (exc + pyval)"

text \<open>
  Lines 89 to 94 of \<open>makeRequest\<close>: decode the body, return \<open>items\<close> when
  \<open>result.code\<close> is 200, raise \<open>ApiException\<close> otherwise. Every subscript can raise.
\<close>

definition check_result :: "response \<Rightarrow> exc + pyval" where
  "check_result response =
     (case json_body response of
        None \<Rightarrow> Inl JSONDecodeError
      | Some res_json \<Rightarrow>
         (case getitem res_json (PStr ''result'') of
            Inl e \<Rightarrow> Inl e
          | Inr result \<Rightarrow>
             (case getitem result (PStr ''code'') of
                Inl e \<Rightarrow> Inl e
              | Inr code \<Rightarrow>
                  if eq_int code 200 then getitem res_json (PStr ''items'')
                  else (case getitem result (PStr ''message'') of
                          Inl e \<Rightarrow> Inl e
                        | Inr message \<Rightarrow> Inl (ApiError (ApiException_init code message))))))"

text \<open>
  \<open>makeRequest\<close>. The three handlers are tried in the source's order. The handler of
  \<open>HTTPError\<close> prints and does not return, so control reaches the decoding of the
  body; had the error come from \<open>requests.request\<close> itself, \<open>response\<close> would be
  unbound there.
\<close>

definition makeRequest :: "Ghasedak \<Rightarrow> transport \<Rightarrow> string \<Rightarrow> pyval \<Rightarrow> string \<Rightarrow> outcome" where
  "makeRequest self transport endpoint data method =
     (let headers =
            [(''Accept'', ''application/json''),
             (''Content-Type'', ''application/x-www-form-urlencoded''),
             (''charset'', ''utf-8''),
             (''apikey'', apikey self)]
      in case transport \<lparr>req_method = method, req_url = url self @ endpoint,
                         req_data = (if data \<noteq> PNone then data else PDict []),
                         req_headers = headers\<rparr> of
           Raises (ConnectionError connection_error) \<Rightarrow>
             ([''[Requests] Connection ERROR: '' @ connection_error], Inr PNone)
         | Raises (HTTPError http_error) \<Rightarrow>
             ([''[Requests] HTTP ERROR: '' @ http_error], Inl UnboundLocalError)
         | Raises (RequestException request_exception) \<Rightarrow>
             ([''[Requests] Request Exception: '' @ request_exception], Inr PNone)
         | Returns response \<Rightarrow>
             (case raise_for_status response of
                Some http_error \<Rightarrow> ([''[Requests] HTTP ERROR: '' @ http_error], check_result response)
              | None \<Rightarrow> ([], check_result response)))"

text \<open>
  The handler every operation has: \<open>print(f"[Ghasedak] {api_error}")\<close>, then return
  the sentinel. Formatting the exception can raise, and then nothing is printed and the
  sentinel is not returned.
\<close>

definition except_ApiException :: "string list \<Rightarrow> ApiException \<Rightarrow> pyval \<Rightarrow> outcome" where
  "except_ApiException out api_error sentinel =
     (case format_exception api_error of
        Inl e \<Rightarrow> (out, Inl e)
      | Inr s \<Rightarrow> (out @ [''[Ghasedak] '' @ s], Inr sentinel))"

text \<open>Lines 120 to 125: the parameters of \<open>sendMessage\<close>.\<close>

definition sendMessage_data :: "pyval \<Rightarrow> pyval \<Rightarrow> pyval \<Rightarrow> pyval \<Rightarrow> pyval \<Rightarrow> (string \<times> pyval) list" where
  "sendMessage_data message receptor linenumber senddate checkid =
     (let data = [];
          data = AList.update ''message'' (PStr (py_str message)) data;
          data = AList.update ''receptor'' (PStr (py_str receptor)) data;
          data = (if linenumber \<noteq> PNone then AList.update ''linenumber'' (PStr (py_str linenumber)) data else data);
          data = (if senddate \<noteq> PNone then AList.update ''senddate'' (PStr (py_str senddate)) data else data);
          data = (if checkid \<noteq> PNone then AList.update ''checkid'' (PStr (py_str checkid)) data else data)
      in data)"

definition sendMessage :: "Ghasedak \<Rightarrow> transport \<Rightarrow> pyval \<Rightarrow> pyval \<Rightarrow> pyval \<Rightarrow> pyval \<Rightarrow> pyval \<Rightarrow> outcome" where
  "sendMessage self transport message receptor linenumber senddate checkid =
     (case makeRequest self transport ''/sms/send/simple''
             (PDict (sendMessage_data message receptor linenumber senddate checkid)) ''POST'' of
        (out, Inl (ApiError api_error)) \<Rightarrow> except_ApiException out api_error (PBool False)
      | (out, Inl e) \<Rightarrow> (out, Inl e)
      | (out, Inr res) \<Rightarrow> (out, getitem res (PInt 1)))"

text \<open>
  Lines 163 to 172: the parameters of \<open>sendOtpVerification\<close>. \<open>params\<close> is the
  dictionary of the extra keyword arguments, in the order given.
\<close>

definition sendOtpVerification_data ::
    "pyval \<Rightarrow> pyval \<Rightarrow> pyval \<Rightarrow> MessageType \<Rightarrow> pyval \<Rightarrow> (string \<times> pyval) list \<Rightarrow> (string \<times> pyval) list" where
  "sendOtpVerification_data otp receptor template type' checkid params =
     (let data = [];
          data = AList.update ''receptor'' (PStr (py_str receptor)) data;
          data = AList.update ''template'' (PStr (py_str template)) data;
          data = AList.update ''type'' (PInt (MessageType_value type')) data;
          data = (if checkid \<noteq> PNone then AList.update ''checkid'' (PStr (py_str checkid)) data else data);
          data = foldl (\<lambda>data (param, val). AList.update param (PStr (py_str val)) data) data params;
          data = AList.update ''param1'' (PStr (py_str otp)) data
      in data)"

definition sendOtpVerification ::
    "Ghasedak \<Rightarrow> transport \<Rightarrow> pyval \<Rightarrow> pyval \<Rightarrow> pyval \<Rightarrow> MessageType \<Rightarrow> pyval \<Rightarrow> (string \<times> pyval) list \<Rightarrow> outcome" where
  "sendOtpVerification self transport otp receptor template type' checkid params =
     (case makeRequest self transport ''/verification/send/simple''
             (PDict (sendOtpVerification_data otp receptor template type' checkid params)) ''POST'' of
        (out, Inl (ApiError api_error)) \<Rightarrow> except_ApiException out api_error (PBool False)
      | (out, Inl e) \<Rightarrow> (out, Inl e)
      | (out, Inr res) \<Rightarrow> (out, Inr res))"

text \<open>Lines 200 to 202: the parameters of \<open>getSMSStatus\<close>.\<close>

definition getSMSStatus_data :: "pyval \<Rightarrow> MessageIDType \<Rightarrow> (string \<times> pyval) list" where
  "getSMSStatus_data id' type' =
     (let data = [];
          data = AList.update ''id'' (PStr (py_str id')) data;
          data = AList.update ''type'' (PInt (MessageIDType_value type')) data
      in data)"

text \<open>
  What \<open>for item in res\<close> visits: the elements of a list, the keys of a dictionary,
  the characters of a string; anything else is not iterable.
\<close>

definition iter :: "pyval \<Rightarrow> exc + pyval list" where
  "iter v =
     (case v of
        PList xs \<Rightarrow> Inr xs
      | PDict kvs \<Rightarrow> Inr (map (\<lambda>kv. PStr (fst kv)) kvs)
      | PStr s \<Rightarrow> Inr (map (\<lambda>c. PStr [c]) s)
      | _ \<Rightarrow> Inl TypeError)"

text \<open>
  The loop of lines 211 and 212 over the visited items, returning them as the loop
  leaves them; the first exception ends it.
\<close>

fun translate_status :: "pyval list \<Rightarrow> exc + pyval list" where
  "translate_status [] = Inr []"
| "translate_status (item # rest) =
     (case getitem item (PStr ''status'') of
        Inl e \<Rightarrow> Inl e
      | Inr status \<Rightarrow>
         (case Statuses_get status of
            Inl e \<Rightarrow> Inl e
          | Inr text' \<Rightarrow>
             (case setitem item ''status'' text' of
                Inl e \<Rightarrow> Inl e
              | Inr item' \<Rightarrow>
                 (case translate_status rest of
                    Inl e \<Rightarrow> Inl e
                  | Inr rest' \<Rightarrow> Inr (item' # rest')))))"

text \<open>
  The items of a decoded body share no objects, so assigning into an element of a
  list changes that element of the list and nothing else; the keys of a dictionary and
  the characters of a string are not changed by the loop (it raises on the first one).
\<close>

definition getSMSStatus :: "Ghasedak \<Rightarrow> transport \<Rightarrow> pyval \<Rightarrow> MessageIDType \<Rightarrow> outcome" where
  "getSMSStatus self transport id' type' =
     (case makeRequest self transport ''/sms/status'' (PDict (getSMSStatus_data id' type')) ''GET'' of
        (out, Inl (ApiError api_error)) \<Rightarrow> except_ApiException out api_error (PBool False)
      | (out, Inl e) \<Rightarrow> (out, Inl e)
      | (out, Inr res) \<Rightarrow>
         (case iter res of
            Inl e \<Rightarrow> (out, Inl e)
          | Inr items \<Rightarrow>
             (case translate_status items of
                Inl e \<Rightarrow> (out, Inl e)
              | Inr items' \<Rightarrow> (out, Inr (case res of PList xs \<Rightarrow> PList items' | _ \<Rightarrow> res)))))"

definition getAccountInfo :: "Ghasedak \<Rightarrow> transport \<Rightarrow> outcome" where
  "getAccountInfo self transport =
     (case makeRequest self transport ''/account/info'' PNone ''POST'' of
        (out, Inl (ApiError api_error)) \<Rightarrow> except_ApiException out api_error PNone
      | (out, Inl e) \<Rightarrow> (out, Inl e)
      | (out, Inr res) \<Rightarrow> (out, Inr res))"

section \<open>Predicates used in the statements\<close>


text \<open>The integer status of an entry, for entries that have one.\<close>

definition status_of :: "pyval \<Rightarrow> int option" where
  "status_of item =
     (case item of
        PDict kvs \<Rightarrow> (case map_of kvs ''status'' of Some (PInt n) \<Rightarrow> Some n | _ \<Rightarrow> None)
      | _ \<Rightarrow> None)"

text \<open>
  The request an operation hands to the transport: method, URL under the base URL,
  parameters, and the fixed headers with the key in \<open>apikey\<close>.
\<close>

definition outbound :: "Ghasedak \<Rightarrow> string \<Rightarrow> string \<Rightarrow> pyval \<Rightarrow> request" where
  "outbound self method endpoint data =
     \<lparr>req_method = method, req_url = url self @ endpoint, req_data = data,
      req_headers = [(''Accept'', ''application/json''),
                     (''Content-Type'', ''application/x-www-form-urlencoded''),
                     (''charset'', ''utf-8''), (''apikey'', apikey self)]\<rparr>"

section \<open>The scenarios' mock transport\<close>

text \<open>
  A transport that answers every request with HTTP status \<open>status\<close> and the JSON
  body \<open>body\<close>, and the two shapes of envelope the scenarios use.
\<close>

definition mock_transport :: "int \<Rightarrow> pyval \<Rightarrow> transport" where
  "mock_transport status body =
     (\<lambda>_. Returns \<lparr>status_code = status, reason = [], resp_url = [], json_body = Some body\<rparr>)"

definition error_envelope :: "int \<Rightarrow> string \<Rightarrow> pyval" where
  "error_envelope code message =
     PDict [(''result'', PDict [(''code'', PInt code), (''message'', PStr message)])]"

definition success_envelope :: "pyval \<Rightarrow> pyval" where
  "success_envelope items =
     PDict [(''result'', PDict [(''code'', PInt 200), (''message'', PStr ''ok'')]), (''items'', items)]"

text \<open>
  A transport for observing what an operation sends: it raises a connection error when
  it is given exactly the request \<open>q\<close>, and another request exception for any other
  request, so the line \<open>makeRequest\<close> prints tells which request was sent.
\<close>

definition expecting :: "request \<Rightarrow> transport" where
  "expecting q =
     (\<lambda>q'. Raises (if q' = q then ConnectionError ''expected request''
                     else RequestException ''other request''))"

section \<open>Dispatch\<close>

text \<open>
  The transport is consulted once, on the request built from the arguments: the URL is
  the base URL followed by the endpoint, the parameters are the ones given (an absent
  mapping is sent as an empty one), and the key travels in the \<open>apikey\<close> header.
\<close>

lemma makeRequest_request:
  "makeRequest self transport endpoint data method =
     makeRequest self
       (\<lambda>_. transport (outbound self method endpoint (if data \<noteq> PNone then data else PDict [])))
       endpoint data method"
  by (simp add: makeRequest_def outbound_def)

lemma makeRequest_Returns:
  "makeRequest self (\<lambda>_. Returns r) endpoint data method =
     ((case raise_for_status r of Some e \<Rightarrow> [''[Requests] HTTP ERROR: '' @ e] | None \<Rightarrow> []),
      check_result r)"
  by (simp add: makeRequest_def split: option.splits)

lemma makeRequest_ConnectionError:
  "makeRequest self (\<lambda>_. Raises (ConnectionError e)) endpoint data method =
     ([''[Requests] Connection ERROR: '' @ e], Inr PNone)"
  by (simp add: makeRequest_def)

lemma makeRequest_RequestException:
  "makeRequest self (\<lambda>_. Raises (RequestException e)) endpoint data method =
     ([''[Requests] Request Exception: '' @ e], Inr PNone)"
  by (simp add: makeRequest_def)

lemma check_result_status: "check_result (r\<lparr>status_code := s\<rparr>) = check_result r"
  by (simp add: check_result_def)

lemma check_result_success:
  assumes "json_body r = Some body"
    and "getitem body (PStr ''result'') = Inr result"
    and "getitem result (PStr ''code'') = Inr (PInt 200)"
  shows "check_result r = getitem body (PStr ''items'')"
  using assms by (simp add: check_result_def eq_int_def as_int_def)

lemma check_result_failure:
  assumes "json_body r = Some body"
    and "getitem body (PStr ''result'') = Inr result"
    and "getitem result (PStr ''code'') = Inr (PInt c)"
    and "c \<noteq> 200"
    and "getitem result (PStr ''message'') = Inr message"
  shows "check_result r = Inl (ApiError (ApiException_init (PInt c) message))"
  using assms by (simp add: check_result_def eq_int_def as_int_def)

text \<open>What each operation does with the outcome of dispatch.\<close>

lemma sendMessage_after:
  assumes "makeRequest self transport ''/sms/send/simple''
             (PDict (sendMessage_data message receptor linenumber senddate checkid)) ''POST'' = (out, r)"
  shows "sendMessage self transport message receptor linenumber senddate checkid =
           (case r of Inl (ApiError e) \<Rightarrow> except_ApiException out e (PBool False)
                    | Inl e \<Rightarrow> (out, Inl e)
                    | Inr res \<Rightarrow> (out, getitem res (PInt 1)))"
  using assms by (simp add: sendMessage_def split: sum.splits exc.splits)

lemma sendOtpVerification_after:
  assumes "makeRequest self transport ''/verification/send/simple''
             (PDict (sendOtpVerification_data otp receptor template type' checkid params)) ''POST'' = (out, r)"
  shows "sendOtpVerification self transport otp receptor template type' checkid params =
           (case r of Inl (ApiError e) \<Rightarrow> except_ApiException out e (PBool False)
                    | _ \<Rightarrow> (out, r))"
  using assms by (simp add: sendOtpVerification_def split: sum.splits exc.splits)

lemma getAccountInfo_after:
  assumes "makeRequest self transport ''/account/info'' PNone ''POST'' = (out, r)"
  shows "getAccountInfo self transport =
           (case r of Inl (ApiError e) \<Rightarrow> except_ApiException out e PNone
                    | _ \<Rightarrow> (out, r))"
  using assms by (simp add: getAccountInfo_def split: sum.splits exc.splits)

lemma getSMSStatus_after_error:
  assumes "makeRequest self transport ''/sms/status'' (PDict (getSMSStatus_data id' type')) ''GET'' = (out, Inl x)"
  shows "getSMSStatus self transport id' type' =
           (case x of ApiError e \<Rightarrow> except_ApiException out e (PBool False) | _ \<Rightarrow> (out, Inl x))"
  using assms by (simp add: getSMSStatus_def split: exc.splits)

lemma getSMSStatus_after_list:
  assumes "makeRequest self transport ''/sms/status'' (PDict (getSMSStatus_data id' type')) ''GET'' = (out, Inr (PList xs))"
  shows "getSMSStatus self transport id' type' =
           (case translate_status xs of Inl e \<Rightarrow> (out, Inl e) | Inr ys \<Rightarrow> (out, Inr (PList ys)))"
  using assms by (simp add: getSMSStatus_def iter_def split: sum.splits)






lemma sendOtpVerification_expecting:
  "fst (sendOtpVerification self
          (expecting (outbound self ''POST'' ''/verification/send/simple''
             (PDict (sendOtpVerification_data otp receptor template type' checkid params))))
          otp receptor template type' checkid params)
     = [''[Requests] Connection ERROR: expected request'']"
  by (simp add: sendOtpVerification_def makeRequest_def expecting_def outbound_def)



lemma mock_transport_Returns:
  "mock_transport status body =
     (\<lambda>_. Returns \<lparr>status_code = status, reason = [], resp_url = [], json_body = Some body\<rparr>)"
  by (simp add: mock_transport_def)

section \<open>The text of an \<open>ApiException\<close>\<close>

lemma int_str_402: "int_str 402 = ''402''"
  by (simp add: int_str_def digits.simps digit_char_def)


lemma ApiException_str_client:
  "400 \<le> c \<Longrightarrow> c < 500 \<Longrightarrow>
   ApiException_str (ApiException_init (PInt c) m) = Inr (PStr (int_str c @ '' Client Error: '' @ py_str m))"
  by (simp add: ApiException_str_def ApiException_init_def as_int_def py_str_def)

lemma format_exception_client:
  "400 \<le> c \<Longrightarrow> c < 500 \<Longrightarrow>
   format_exception (ApiException_init (PInt c) m) = Inr (int_str c @ '' Client Error: '' @ py_str m)"
  by (simp add: format_exception_def ApiException_str_client)

lemma ApiException_str_other:
  "\<not> (400 \<le> c \<and> c < 500) \<Longrightarrow> ApiException_str (ApiException_init (PInt c) m) = Inr PNone"
  by (simp add: ApiException_str_def ApiException_init_def as_int_def)

lemma format_exception_other:
  "\<not> (400 \<le> c \<and> c < 500) \<Longrightarrow> format_exception (ApiException_init (PInt c) m) = Inl TypeError"
  by (simp add: format_exception_def ApiException_str_other)

lemma except_ApiException_client:
  "400 \<le> c \<Longrightarrow> c < 500 \<Longrightarrow>
   except_ApiException out (ApiException_init (PInt c) m) sentinel
     = (out @ [''[Ghasedak] '' @ int_str c @ '' Client Error: '' @ py_str m], Inr sentinel)"
  by (simp add: except_ApiException_def format_exception_client)

lemma except_ApiException_other:
  "\<not> (400 \<le> c \<and> c < 500) \<Longrightarrow>
   except_ApiException out (ApiException_init (PInt c) m) sentinel = (out, Inl TypeError)"
  by (simp add: except_ApiException_def format_exception_other)

section \<open>Transport failures\<close>

text \<open>
  After a connection error or any other request exception \<open>makeRequest\<close> returns
  \<open>None\<close>. \<open>sendOtpVerification\<close> and \<open>getAccountInfo\<close> pass it on;
  \<open>sendMessage\<close> subscripts it and \<open>getSMSStatus\<close> iterates over it, and both
  raise \<open>TypeError\<close>.
\<close>

lemma transport_failure_raises:
  "snd (sendMessage self (\<lambda>_. Raises (ConnectionError e)) message receptor linenumber senddate checkid) = Inl TypeError"
  "snd (sendMessage self (\<lambda>_. Raises (RequestException e)) message receptor linenumber senddate checkid) = Inl TypeError"
  "snd (getSMSStatus self (\<lambda>_. Raises (ConnectionError e)) id' type') = Inl TypeError"
  "snd (getSMSStatus self (\<lambda>_. Raises (RequestException e)) id' type') = Inl TypeError"
  "snd (sendOtpVerification self (\<lambda>_. Raises (ConnectionError e)) otp receptor template mtype checkid params) = Inr PNone"
  "snd (getAccountInfo self (\<lambda>_. Raises (ConnectionError e))) = Inr PNone"
  by (simp_all add: sendMessage_after [OF makeRequest_ConnectionError]
      sendMessage_after [OF makeRequest_RequestException]
      sendOtpVerification_after [OF makeRequest_ConnectionError]
      getAccountInfo_after [OF makeRequest_ConnectionError]
      getSMSStatus_def makeRequest_ConnectionError makeRequest_RequestException iter_def)

text \<open>
  Claim C1: a network error or a domain error makes each of the four operations return
  its failure sentinel, and no exception leaves the operation. The docstring of
  \<open>sendMessage\<close> says the same (``On failure returns False''). The code does
  otherwise: with a transport that raises \<open>ConnectionError\<close>,
  \<open>sendMessage("hello", "98912345678")\<close> prints the connection error and then raises
  \<open>TypeError\<close>, from \<open>res[1]\<close> on the \<open>None\<close> that \<open>makeRequest\<close> returned.
\<close>

theorem sendMessage_connection_error_raises:
  "sendMessage (Ghasedak_init ''key'') (\<lambda>_. Raises (ConnectionError ''refused''))
     (PStr ''hello'') (PStr ''98912345678'') PNone PNone PNone
   = ([''[Requests] Connection ERROR: refused''], Inl TypeError)"
  by (simp add: sendMessage_after [OF makeRequest_ConnectionError])

section \<open>Domain errors\<close>

text \<open>
  Claim C2, as stated: against an envelope with \<open>result.code\<close> 402 and
  \<open>result.message\<close> ``Insufficient credit'' an operation yields a failure result
  that carries the code and the message. It does not: \<open>sendMessage\<close> returns the
  bare \<open>False\<close>, the very value it returns for code 401 and message
  ``Unauthorized''.
\<close>

theorem insufficient_credit_result_is_bare_sentinel_counterexample:
  "snd (sendMessage (Ghasedak_init ''key'') (mock_transport 200 (error_envelope 402 ''Insufficient credit''))
          (PStr ''hello'') (PStr ''98912345678'') PNone PNone PNone) = Inr (PBool False)
   \<and> snd (sendMessage (Ghasedak_init ''key'') (mock_transport 200 (error_envelope 401 ''Unauthorized''))
          (PStr ''hello'') (PStr ''98912345678'') PNone PNone PNone) = Inr (PBool False)"
  by (simp add: mock_transport_Returns error_envelope_def sendMessage_after [OF makeRequest_Returns]
      check_result_def eq_int_def as_int_def except_ApiException_client)

text \<open>
  Claim C2, amended: against a response whose envelope has \<open>result.code\<close> 402 and
  \<open>result.message\<close> ``Insufficient credit'', whatever its HTTP status,
  \<open>makeRequest\<close> raises an \<open>ApiException\<close> carrying 402 and the message; each of
  the four operations catches it, prints the line
  \<open>[Ghasedak] 402 Client Error: Insufficient credit\<close> after whatever dispatch
  printed, and returns its sentinel (\<open>False\<close>, and \<open>None\<close> for
  \<open>getAccountInfo\<close>) without raising.
\<close>

theorem insufficient_credit_returns_sentinel:
  assumes "json_body response = Some body"
    and "getitem body (PStr ''result'') = Inr result"
    and "getitem result (PStr ''code'') = Inr (PInt 402)"
    and "getitem result (PStr ''message'') = Inr (PStr ''Insufficient credit'')"
  shows "snd (makeRequest self (\<lambda>_. Returns response) endpoint data verb)
           = Inl (ApiError (ApiException_init (PInt 402) (PStr ''Insufficient credit'')))
       \<and> sendMessage self (\<lambda>_. Returns response) message receptor linenumber senddate checkid
           = (fst (makeRequest self (\<lambda>_. Returns response) endpoint data verb)
                @ [''[Ghasedak] 402 Client Error: Insufficient credit''], Inr (PBool False))
       \<and> sendOtpVerification self (\<lambda>_. Returns response) otp receptor template mtype checkid params
           = (fst (makeRequest self (\<lambda>_. Returns response) endpoint data verb)
                @ [''[Ghasedak] 402 Client Error: Insufficient credit''], Inr (PBool False))
       \<and> getSMSStatus self (\<lambda>_. Returns response) id' itype
           = (fst (makeRequest self (\<lambda>_. Returns response) endpoint data verb)
                @ [''[Ghasedak] 402 Client Error: Insufficient credit''], Inr (PBool False))
       \<and> getAccountInfo self (\<lambda>_. Returns response)
           = (fst (makeRequest self (\<lambda>_. Returns response) endpoint data verb)
                @ [''[Ghasedak] 402 Client Error: Insufficient credit''], Inr PNone)"
proof -
  let ?e = "ApiException_init (PInt 402) (PStr ''Insufficient credit'')"
  let ?out = "case raise_for_status response of Some e \<Rightarrow> [''[Requests] HTTP ERROR: '' @ e] | None \<Rightarrow> []"
  have raised: "check_result response = Inl (ApiError ?e)"
    using assms by (simp add: check_result_failure)
  have dispatch: "\<And>endpoint data verb.
      makeRequest self (\<lambda>_. Returns response) endpoint data verb = (?out, Inl (ApiError ?e))"
    by (simp add: makeRequest_Returns raised)
  have handler: "\<And>sentinel. except_ApiException ?out ?e sentinel
      = (?out @ [''[Ghasedak] 402 Client Error: Insufficient credit''], Inr sentinel)"
    by (simp add: except_ApiException_client int_str_402 py_str_def)
  show ?thesis
    by (simp add: dispatch handler sendMessage_after [OF dispatch]
        sendOtpVerification_after [OF dispatch] getAccountInfo_after [OF dispatch]
        getSMSStatus_after_error [OF dispatch])
qed

theorem insufficient_credit_returns_sentinel_witness:
  "sendMessage (Ghasedak_init ''key'') (mock_transport 200 (error_envelope 402 ''Insufficient credit''))
      (PStr ''hello'') (PStr ''98912345678'') PNone PNone PNone
     = ([''[Ghasedak] 402 Client Error: Insufficient credit''], Inr (PBool False))
   \<and> getAccountInfo (Ghasedak_init ''key'') (mock_transport 200 (error_envelope 402 ''Insufficient credit''))
     = ([''[Ghasedak] 402 Client Error: Insufficient credit''], Inr PNone)"
proof -
  let ?body = "error_envelope 402 ''Insufficient credit''"
  let ?result = "PDict [(''code'', PInt 402), (''message'', PStr ''Insufficient credit'')]"
  let ?r = "\<lparr>status_code = 200, reason = [], resp_url = [], json_body = Some ?body\<rparr>"
  have "json_body ?r = Some ?body"
    and "getitem ?body (PStr ''result'') = Inr ?result"
    and "getitem ?result (PStr ''code'') = Inr (PInt 402)"
    and "getitem ?result (PStr ''message'') = Inr (PStr ''Insufficient credit'')"
    by (simp_all add: error_envelope_def)
  note fact = insufficient_credit_returns_sentinel [OF this,
      where self = "Ghasedak_init ''key''" and endpoint = "''/account/info''" and data = PNone
        and verb = "''POST''" and message = "PStr ''hello''" and receptor = "PStr ''98912345678''"
        and linenumber = PNone and senddate = PNone and checkid = PNone]
  have quiet: "fst (makeRequest (Ghasedak_init ''key'') (\<lambda>_. Returns ?r) ''/account/info'' PNone ''POST'') = []"
    by (simp add: makeRequest_Returns raise_for_status_def)
  from fact [THEN conjunct2, THEN conjunct1] fact [THEN conjunct2, THEN conjunct2, THEN conjunct2, THEN conjunct2]
  show ?thesis
    by (simp add: mock_transport_Returns quiet)
qed

section \<open>Request parameters\<close>














lemma sendOtpVerification_param1_example:
  "fst (sendOtpVerification (Ghasedak_init ''key'')
          (expecting (outbound (Ghasedak_init ''key'') ''POST'' ''/verification/send/simple''
             (PDict [(''receptor'', PStr ''0912''), (''template'', PStr ''tpl''), (''type'', PInt 1),
                     (''param1'', PStr ''1234''), (''param2'', PStr ''x'')])))
          (PStr ''1234'') (PStr ''0912'') (PStr ''tpl'') TEXT PNone
          [(''param1'', PStr ''9999''), (''param2'', PStr ''x'')])
     = [''[Requests] Connection ERROR: expected request'']"
proof -
  have "sendOtpVerification_data (PStr ''1234'') (PStr ''0912'') (PStr ''tpl'') TEXT PNone
     [(''param1'', PStr ''9999''), (''param2'', PStr ''x'')]
   = [(''receptor'', PStr ''0912''), (''template'', PStr ''tpl''), (''type'', PInt 1),
      (''param1'', PStr ''1234''), (''param2'', PStr ''x'')]"
    by (simp add: sendOtpVerification_data_def py_str_def)
  with sendOtpVerification_expecting [of "Ghasedak_init ''key''" "PStr ''1234''" "PStr ''0912''"
      "PStr ''tpl''" TEXT PNone "[(''param1'', PStr ''9999''), (''param2'', PStr ''x'')]"]
  show ?thesis by simp
qed


section \<open>Successful calls\<close>

text \<open>
  Claim C5: when the envelope has \<open>result.code\<close> 200 and \<open>items\<close> is a list of at
  least two elements, \<open>sendMessage\<close> returns the second element; with items
  \<open>["x", "42"]\<close> it returns \<open>"42"\<close>.
\<close>

theorem sendMessage_returns_second_item:
  assumes "json_body response = Some body"
    and "getitem body (PStr ''result'') = Inr result"
    and "getitem result (PStr ''code'') = Inr (PInt 200)"
    and "getitem body (PStr ''items'') = Inr (PList items)"
    and "2 \<le> length items"
  shows "snd (sendMessage self (\<lambda>_. Returns response) message receptor linenumber senddate checkid)
           = Inr (items ! 1)"
proof -
  have "check_result response = Inr (PList items)"
    using assms(1-4) by (simp add: check_result_success)
  then show ?thesis
    using assms(5) by (simp add: sendMessage_after [OF makeRequest_Returns] index_def)
qed

theorem sendMessage_returns_second_item_witness:
  "snd (sendMessage (Ghasedak_init ''key'')
          (mock_transport 200 (success_envelope (PList [PStr ''x'', PStr ''42''])))
          (PStr ''hello'') (PStr ''98912345678'') PNone PNone PNone)
     = Inr (PStr ''42'')"
  using sendMessage_returns_second_item
    [of "\<lparr>status_code = 200, reason = [], resp_url = [],
          json_body = Some (success_envelope (PList [PStr ''x'', PStr ''42'']))\<rparr>"
        "success_envelope (PList [PStr ''x'', PStr ''42''])"
        "PDict [(''code'', PInt 200), (''message'', PStr ''ok'')]"
        "[PStr ''x'', PStr ''42'']"
        "Ghasedak_init ''key''" "PStr ''hello''" "PStr ''98912345678''" PNone PNone PNone]
  by (simp add: mock_transport_Returns success_envelope_def)

text \<open>
  Claim C6: when the round-trip completes with a status from 400 to 599, dispatch
  prints the HTTP error and goes on: the body is decoded and the result code checked,
  with the same result as for the same body under any 2xx status. A body that is not
  JSON raises the decoding error, an envelope with code 200 returns its \<open>items\<close>,
  and an envelope with any other integer code raises \<open>ApiException\<close> with that
  code and the envelope's message.
\<close>

theorem http_error_status_still_parsed:
  assumes "400 \<le> status_code response" and "status_code response < 600"
  shows "snd (makeRequest self (\<lambda>_. Returns response) endpoint data method) = check_result response
       \<and> (\<forall>s. 200 \<le> s \<and> s < 300 \<longrightarrow>
            snd (makeRequest self (\<lambda>_. Returns response) endpoint data method)
              = snd (makeRequest self (\<lambda>_. Returns (response\<lparr>status_code := s\<rparr>)) endpoint data method))
       \<and> (\<exists>http_error. fst (makeRequest self (\<lambda>_. Returns response) endpoint data method)
              = [''[Requests] HTTP ERROR: '' @ http_error])
       \<and> (json_body response = None \<longrightarrow>
            snd (makeRequest self (\<lambda>_. Returns response) endpoint data method) = Inl JSONDecodeError)
       \<and> (\<forall>body result. json_body response = Some body
              \<and> getitem body (PStr ''result'') = Inr result
              \<and> getitem result (PStr ''code'') = Inr (PInt 200)
            \<longrightarrow> snd (makeRequest self (\<lambda>_. Returns response) endpoint data method)
                  = getitem body (PStr ''items''))
       \<and> (\<forall>body result c message. json_body response = Some body
              \<and> getitem body (PStr ''result'') = Inr result
              \<and> getitem result (PStr ''code'') = Inr (PInt c) \<and> c \<noteq> 200
              \<and> getitem result (PStr ''message'') = Inr message
            \<longrightarrow> snd (makeRequest self (\<lambda>_. Returns response) endpoint data method)
                  = Inl (ApiError (ApiException_init (PInt c) message)))"
proof (intro conjI allI impI)
  show "snd (makeRequest self (\<lambda>_. Returns response) endpoint data method) = check_result response"
    by (simp add: makeRequest_Returns)
  show "\<exists>http_error. fst (makeRequest self (\<lambda>_. Returns response) endpoint data method)
              = [''[Requests] HTTP ERROR: '' @ http_error]"
    using assms by (simp add: makeRequest_Returns raise_for_status_def)
next
  fix s :: int
  show "snd (makeRequest self (\<lambda>_. Returns response) endpoint data method)
          = snd (makeRequest self (\<lambda>_. Returns (response\<lparr>status_code := s\<rparr>)) endpoint data method)"
    by (simp add: makeRequest_Returns check_result_status)
next
  assume "json_body response = None"
  then show "snd (makeRequest self (\<lambda>_. Returns response) endpoint data method) = Inl JSONDecodeError"
    by (simp add: makeRequest_Returns check_result_def)
next
  fix body result
  assume "json_body response = Some body
              \<and> getitem body (PStr ''result'') = Inr result
              \<and> getitem result (PStr ''code'') = Inr (PInt 200)"
  then show "snd (makeRequest self (\<lambda>_. Returns response) endpoint data method)
                  = getitem body (PStr ''items'')"
    by (simp add: makeRequest_Returns check_result_success)
next
  fix body result c message
  assume "json_body response = Some body
              \<and> getitem body (PStr ''result'') = Inr result
              \<and> getitem result (PStr ''code'') = Inr (PInt c) \<and> c \<noteq> 200
              \<and> getitem result (PStr ''message'') = Inr message"
  then show "snd (makeRequest self (\<lambda>_. Returns response) endpoint data method)
                  = Inl (ApiError (ApiException_init (PInt c) message))"
    by (simp add: makeRequest_Returns check_result_failure)
qed

theorem http_error_status_still_parsed_witness:
  "(400::int) \<le> 500 \<and> (500::int) < 600
   \<and> snd (makeRequest (Ghasedak_init ''key'')
         (mock_transport 500 (success_envelope (PList [PStr ''x'', PStr ''42''])))
         ''/sms/send/simple'' PNone ''POST'')
     = Inr (PList [PStr ''x'', PStr ''42''])
   \<and> snd (makeRequest (Ghasedak_init ''key'')
         (mock_transport 204 (success_envelope (PList [PStr ''x'', PStr ''42''])))
         ''/sms/send/simple'' PNone ''POST'')
     = Inr (PList [PStr ''x'', PStr ''42''])
   \<and> snd (makeRequest (Ghasedak_init ''key'')
         (mock_transport 500 (error_envelope 402 ''Insufficient credit''))
         ''/sms/send/simple'' PNone ''POST'')
     = Inl (ApiError (ApiException_init (PInt 402) (PStr ''Insufficient credit'')))"
proof -
  let ?items = "PList [PStr ''x'', PStr ''42'']"
  let ?r = "\<lparr>status_code = 500, reason = [], resp_url = [],
             json_body = Some (success_envelope ?items)\<rparr>"
  let ?body = "error_envelope 402 ''Insufficient credit''"
  let ?result = "PDict [(''code'', PInt 402), (''message'', PStr ''Insufficient credit'')]"
  let ?r' = "\<lparr>status_code = 500, reason = [], resp_url = [], json_body = Some ?body\<rparr>"
  have range: "400 \<le> status_code ?r" "status_code ?r < 600"
    by simp_all
  have range': "400 \<le> status_code ?r'" "status_code ?r' < 600"
    by simp_all
  have ok: "json_body ?r = Some (success_envelope ?items)
      \<and> getitem (success_envelope ?items) (PStr ''result'')
          = Inr (PDict [(''code'', PInt 200), (''message'', PStr ''ok'')])
      \<and> getitem (PDict [(''code'', PInt 200), (''message'', PStr ''ok'')]) (PStr ''code'') = Inr (PInt 200)"
    by (simp add: success_envelope_def)
  have failed: "json_body ?r' = Some ?body
      \<and> getitem ?body (PStr ''result'') = Inr ?result
      \<and> getitem ?result (PStr ''code'') = Inr (PInt 402) \<and> (402::int) \<noteq> 200
      \<and> getitem ?result (PStr ''message'') = Inr (PStr ''Insufficient credit'')"
    by (simp add: error_envelope_def)
  note fact = http_error_status_still_parsed
    [OF range, of "Ghasedak_init ''key''" "''/sms/send/simple''" PNone "''POST''"]
  note fact' = http_error_status_still_parsed
    [OF range', of "Ghasedak_init ''key''" "''/sms/send/simple''" PNone "''POST''"]
  note same = fact [THEN conjunct2, THEN conjunct1, rule_format, of 204]
  note items = fact [THEN conjunct2, THEN conjunct2, THEN conjunct2, THEN conjunct2,
      THEN conjunct1, rule_format, OF ok]
  note raised = fact' [THEN conjunct2, THEN conjunct2, THEN conjunct2, THEN conjunct2,
      THEN conjunct2, rule_format, OF failed]
  from same items raised show ?thesis
    by (simp add: mock_transport_Returns success_envelope_def)
qed

subsection \<open>Status translation\<close>

lemma Statuses_defined:
  assumes "0 \<le> n" and "n \<le> 6"
  shows "\<exists>s. map_of Statuses n = Some s"
proof -
  from assms have "n = 0 \<or> n = 1 \<or> n = 2 \<or> n = 3 \<or> n = 4 \<or> n = 5 \<or> n = 6"
    by arith
  then show ?thesis
    by (auto simp add: Statuses_def)
qed

lemma translate_one:
  assumes "status_of item = Some n" and "map_of Statuses n = Some s"
  shows "\<exists>kvs. item = PDict kvs
           \<and> getitem item (PStr ''status'') = Inr (PInt n)
           \<and> Statuses_get (PInt n) = Inr (PStr s)
           \<and> setitem item ''status'' (PStr s) = Inr (PDict (AList.update ''status'' (PStr s) kvs))"
  using assms
  by (auto simp add: status_of_def Statuses_get_def hashable_def as_int_def
      split: pyval.splits option.splits)

lemma translate_status_table:
  assumes "\<forall>item \<in> set entries. \<exists>n. status_of item = Some n \<and> 0 \<le> n \<and> n \<le> 6"
  shows "\<exists>out. translate_status entries = Inr out \<and> length out = length entries
           \<and> (\<forall>i < length entries. \<exists>kvs n s. entries ! i = PDict kvs
                  \<and> map_of kvs ''status'' = Some (PInt n) \<and> map_of Statuses n = Some s
                  \<and> out ! i = PDict (AList.update ''status'' (PStr s) kvs)
                  \<and> getitem (out ! i) (PStr ''status'') = Inr (PStr s))"
  using assms
proof (induction entries)
  case Nil
  then show ?case by simp
next
  case (Cons item rest)
  from Cons.prems obtain n where n: "status_of item = Some n" "0 \<le> n" "n \<le> 6"
    by auto
  from Statuses_defined [OF n(2,3)] obtain s where s: "map_of Statuses n = Some s" ..
  from translate_one [OF n(1) s] obtain kvs where
    item: "item = PDict kvs" "getitem item (PStr ''status'') = Inr (PInt n)"
      "Statuses_get (PInt n) = Inr (PStr s)"
      "setitem item ''status'' (PStr s) = Inr (PDict (AList.update ''status'' (PStr s) kvs))"
    by blast
  from Cons.prems have "\<forall>item \<in> set rest. \<exists>n. status_of item = Some n \<and> 0 \<le> n \<and> n \<le> 6"
    by simp
  from Cons.IH [OF this] obtain out where
    out: "translate_status rest = Inr out" "length out = length rest"
      "\<forall>i < length rest. \<exists>kvs n s. rest ! i = PDict kvs
          \<and> map_of kvs ''status'' = Some (PInt n) \<and> map_of Statuses n = Some s
          \<and> out ! i = PDict (AList.update ''status'' (PStr s) kvs)
          \<and> getitem (out ! i) (PStr ''status'') = Inr (PStr s)"
    by blast
  let ?item' = "PDict (AList.update ''status'' (PStr s) kvs)"
  have stat: "map_of kvs ''status'' = Some (PInt n)"
    using item(1,2) by (simp split: option.splits)
  have run: "translate_status (item # rest) = Inr (?item' # out)"
    using item out(1) by simp
  have head: "getitem ?item' (PStr ''status'') = Inr (PStr s)"
    by (simp add: update_conv')
  have "\<forall>i < length (item # rest). \<exists>kvs n s. (item # rest) ! i = PDict kvs
          \<and> map_of kvs ''status'' = Some (PInt n) \<and> map_of Statuses n = Some s
          \<and> (?item' # out) ! i = PDict (AList.update ''status'' (PStr s) kvs)
          \<and> getitem ((?item' # out) ! i) (PStr ''status'') = Inr (PStr s)"
  proof (intro allI impI)
    fix i assume "i < length (item # rest)"
    then show "\<exists>kvs n s. (item # rest) ! i = PDict kvs
          \<and> map_of kvs ''status'' = Some (PInt n) \<and> map_of Statuses n = Some s
          \<and> (?item' # out) ! i = PDict (AList.update ''status'' (PStr s) kvs)
          \<and> getitem ((?item' # out) ! i) (PStr ''status'') = Inr (PStr s)"
      using item(1) stat s head out(3) by (cases i) auto
  qed
  with run out(2) show ?case by simp
qed

text \<open>
  Claim C7: when \<open>getSMSStatus\<close> succeeds and every returned entry has an integer
  status from 0 to 6, the result is a list of the same length in which each entry is the
  original entry with \<open>status\<close> rebound, in place, to the table's string for its
  status; an entry with status 5 gets ``Receptor is in Blacklist''.
\<close>

theorem getSMSStatus_rewrites_status:
  assumes "json_body response = Some body"
    and "getitem body (PStr ''result'') = Inr result"
    and "getitem result (PStr ''code'') = Inr (PInt 200)"
    and "getitem body (PStr ''items'') = Inr (PList entries)"
    and "\<forall>item \<in> set entries. \<exists>n. status_of item = Some n \<and> 0 \<le> n \<and> n \<le> 6"
  shows "\<exists>out. snd (getSMSStatus self (\<lambda>_. Returns response) id' type') = Inr (PList out)
           \<and> length out = length entries
           \<and> (\<forall>i < length entries. \<exists>kvs n s. entries ! i = PDict kvs
                  \<and> map_of kvs ''status'' = Some (PInt n) \<and> map_of Statuses n = Some s
                  \<and> out ! i = PDict (AList.update ''status'' (PStr s) kvs)
                  \<and> getitem (out ! i) (PStr ''status'') = Inr (PStr s))"
proof -
  have "check_result response = Inr (PList entries)"
    using assms(1-4) by (simp add: check_result_success)
  then have "makeRequest self (\<lambda>_. Returns response) ''/sms/status'' (PDict (getSMSStatus_data id' type')) ''GET''
      = ((case raise_for_status response of Some e \<Rightarrow> [''[Requests] HTTP ERROR: '' @ e] | None \<Rightarrow> []),
         Inr (PList entries))"
    by (simp add: makeRequest_Returns)
  from getSMSStatus_after_list [OF this]
  have "snd (getSMSStatus self (\<lambda>_. Returns response) id' type') =
      (case translate_status entries of Inl e \<Rightarrow> Inl e | Inr ys \<Rightarrow> Inr (PList ys))"
    by (simp split: sum.splits)
  with translate_status_table [OF assms(5)] show ?thesis
    by auto
qed

theorem getSMSStatus_rewrites_status_witness:
  "status_of (PDict [(''messageid'', PInt 7), (''status'', PInt 5)]) = Some 5
   \<and> snd (getSMSStatus (Ghasedak_init ''key'')
         (mock_transport 200 (success_envelope (PList [PDict [(''messageid'', PInt 7), (''status'', PInt 5)]])))
         (PStr ''7'') MESSAGE_ID)
     = Inr (PList [PDict [(''messageid'', PInt 7), (''status'', PStr ''Receptor is in Blacklist'')]])"
proof -
  let ?entries = "[PDict [(''messageid'', PInt 7), (''status'', PInt 5)]]"
  let ?body = "success_envelope (PList ?entries)"
  let ?r = "\<lparr>status_code = 200, reason = [], resp_url = [], json_body = Some ?body\<rparr>"
  have entries: "\<forall>item \<in> set ?entries. \<exists>n. status_of item = Some n \<and> 0 \<le> n \<and> n \<le> 6"
    by (simp add: status_of_def)
  have "json_body ?r = Some ?body"
    and "getitem ?body (PStr ''result'') = Inr (PDict [(''code'', PInt 200), (''message'', PStr ''ok'')])"
    and "getitem (PDict [(''code'', PInt 200), (''message'', PStr ''ok'')]) (PStr ''code'') = Inr (PInt 200)"
    and "getitem ?body (PStr ''items'') = Inr (PList ?entries)"
    by (simp_all add: success_envelope_def)
  from getSMSStatus_rewrites_status [OF this entries, of "Ghasedak_init ''key''" "PStr ''7''" MESSAGE_ID]
  obtain out where out: "snd (getSMSStatus (Ghasedak_init ''key'') (\<lambda>_. Returns ?r) (PStr ''7'') MESSAGE_ID) = Inr (PList out)"
    and len: "length out = length ?entries"
    and each: "\<forall>i < length ?entries. \<exists>kvs n s. ?entries ! i = PDict kvs
                  \<and> map_of kvs ''status'' = Some (PInt n) \<and> map_of Statuses n = Some s
                  \<and> out ! i = PDict (AList.update ''status'' (PStr s) kvs)
                  \<and> getitem (out ! i) (PStr ''status'') = Inr (PStr s)"
    by blast
  from each have "out ! 0 = PDict [(''messageid'', PInt 7), (''status'', PStr ''Receptor is in Blacklist'')]"
    by (auto simp add: Statuses_def)
  moreover from len obtain x where "out = [x]"
    by (cases out) auto
  ultimately have "out = [PDict [(''messageid'', PInt 7), (''status'', PStr ''Receptor is in Blacklist'')]]"
    by simp
  with out show ?thesis
    by (simp add: mock_transport_Returns status_of_def)
qed

section \<open>The string form of the exception\<close>

text \<open>
  Claim C9: an \<open>ApiException\<close> made with an integer code from 400 to 499 and a
  string message carries both, and its string form is the code in decimal, then
  \<open>Client Error:\<close>, then the message.
\<close>

theorem ApiException_client_error_text:
  assumes "400 \<le> c" and "c < 500"
  shows "self_code (ApiException_init (PInt c) (PStr m)) = PInt c
       \<and> self_message (ApiException_init (PInt c) (PStr m)) = PStr m
       \<and> ApiException_str (ApiException_init (PInt c) (PStr m))
           = Inr (PStr (int_str c @ '' Client Error: '' @ m))
       \<and> format_exception (ApiException_init (PInt c) (PStr m))
           = Inr (int_str c @ '' Client Error: '' @ m)"
  using assms
  by (simp add: ApiException_str_client format_exception_client) (simp add: ApiException_init_def py_str_def)

theorem ApiException_client_error_text_witness:
  "(400::int) \<le> 402 \<and> (402::int) < 500
   \<and> ApiException_str (ApiException_init (PInt 402) (PStr ''Insufficient credit''))
       = Inr (PStr ''402 Client Error: Insufficient credit'')"
  using ApiException_client_error_text [of 402 "''Insufficient credit''"]
  by (simp add: int_str_402)

text \<open>
  Claim C10: for an integer code outside 400 to 499, \<open>__str__\<close> returns \<open>None\<close>,
  so formatting the exception raises \<open>TypeError\<close>; a domain error with such a code
  therefore makes each operation raise \<open>TypeError\<close> from its own handler instead of
  returning its sentinel.
\<close>

theorem ApiException_other_code_raises:
  assumes "\<not> (400 \<le> c \<and> c < 500)"
  shows "ApiException_str (ApiException_init (PInt c) message) = Inr PNone
       \<and> format_exception (ApiException_init (PInt c) message) = Inl TypeError
       \<and> (c \<noteq> 200 \<and> json_body response = Some body
            \<and> getitem body (PStr ''result'') = Inr result
            \<and> getitem result (PStr ''code'') = Inr (PInt c)
            \<and> getitem result (PStr ''message'') = Inr message
          \<longrightarrow> snd (sendMessage self (\<lambda>_. Returns response) msg receptor linenumber senddate checkid) = Inl TypeError
            \<and> snd (sendOtpVerification self (\<lambda>_. Returns response) otp receptor template mtype checkid params) = Inl TypeError
            \<and> snd (getSMSStatus self (\<lambda>_. Returns response) id' itype) = Inl TypeError
            \<and> snd (getAccountInfo self (\<lambda>_. Returns response)) = Inl TypeError)"
proof (intro conjI impI)
  show "ApiException_str (ApiException_init (PInt c) message) = Inr PNone"
    using assms by (rule ApiException_str_other)
  show "format_exception (ApiException_init (PInt c) message) = Inl TypeError"
    using assms by (rule format_exception_other)
next
  assume env: "c \<noteq> 200 \<and> json_body response = Some body
            \<and> getitem body (PStr ''result'') = Inr result
            \<and> getitem result (PStr ''code'') = Inr (PInt c)
            \<and> getitem result (PStr ''message'') = Inr message"
  then have raised: "check_result response = Inl (ApiError (ApiException_init (PInt c) message))"
    by (simp add: check_result_failure)
  show "snd (sendMessage self (\<lambda>_. Returns response) msg receptor linenumber senddate checkid) = Inl TypeError"
    using assms by (simp add: sendMessage_after [OF makeRequest_Returns] raised except_ApiException_other)
  show "snd (sendOtpVerification self (\<lambda>_. Returns response) otp receptor template mtype checkid params) = Inl TypeError"
    using assms by (simp add: sendOtpVerification_after [OF makeRequest_Returns] raised except_ApiException_other)
  show "snd (getAccountInfo self (\<lambda>_. Returns response)) = Inl TypeError"
    using assms by (simp add: getAccountInfo_after [OF makeRequest_Returns] raised except_ApiException_other)
  have "makeRequest self (\<lambda>_. Returns response) ''/sms/status'' (PDict (getSMSStatus_data id' itype)) ''GET''
      = (fst (makeRequest self (\<lambda>_. Returns response) ''/sms/status'' (PDict (getSMSStatus_data id' itype)) ''GET''),
         Inl (ApiError (ApiException_init (PInt c) message)))"
    by (simp add: makeRequest_Returns raised)
  from getSMSStatus_after_error [OF this]
  show "snd (getSMSStatus self (\<lambda>_. Returns response) id' itype) = Inl TypeError"
    using assms by (simp add: except_ApiException_other)
qed

theorem ApiException_other_code_raises_witness:
  "\<not> (400 \<le> (500::int) \<and> (500::int) < 500)
   \<and> ApiException_str (ApiException_init (PInt 500) (PStr ''Server error'')) = Inr PNone
   \<and> snd (sendMessage (Ghasedak_init ''key'') (mock_transport 200 (error_envelope 500 ''Server error''))
          (PStr ''hello'') (PStr ''98912345678'') PNone PNone PNone) = Inl TypeError
   \<and> snd (getSMSStatus (Ghasedak_init ''key'') (mock_transport 200 (error_envelope 500 ''Server error''))
          (PStr ''7'') CHECK_ID) = Inl TypeError"
proof -
  let ?body = "error_envelope 500 ''Server error''"
  let ?r = "\<lparr>status_code = 200, reason = [], resp_url = [], json_body = Some ?body\<rparr>"
  have outside: "\<not> (400 \<le> (500::int) \<and> (500::int) < 500)"
    by simp
  have env: "(500::int) \<noteq> 200 \<and> json_body ?r = Some ?body
      \<and> getitem ?body (PStr ''result'') = Inr (PDict [(''code'', PInt 500), (''message'', PStr ''Server error'')])
      \<and> getitem (PDict [(''code'', PInt 500), (''message'', PStr ''Server error'')]) (PStr ''code'') = Inr (PInt 500)
      \<and> getitem (PDict [(''code'', PInt 500), (''message'', PStr ''Server error'')]) (PStr ''message'') = Inr (PStr ''Server error'')"
    by (simp add: error_envelope_def)
  note fact = ApiException_other_code_raises
     [where c = 500 and message = "PStr ''Server error''" and response = ?r and body = ?body
        and result = "PDict [(''code'', PInt 500), (''message'', PStr ''Server error'')]"
        and self = "Ghasedak_init ''key''" and msg = "PStr ''hello''"
        and receptor = "PStr ''98912345678''" and linenumber = PNone and senddate = PNone
        and checkid = PNone and id' = "PStr ''7''" and itype = CHECK_ID, OF outside]
  from fact [THEN conjunct1] fact [THEN conjunct2, THEN conjunct2, rule_format, OF env] outside
  show ?thesis
    by (simp add: mock_transport_Returns)
qed

end
